theory Spec2Isabelle
  imports Main "HOL-Library.Word"
begin

section \<open>Real-time console transcription: a model of main.py\<close>

text \<open>
  The program is a thin layer over two external libraries: an audio driver that calls
  \<open>audio_callback\<close> once per block, and a speech recognizer that is a black box.
  The model keeps the program's own control flow and its console output, and takes
  everything external (imports, model loading, the recognizer's answers, the driver's
  schedule, interrupts) from an environment record.
\<close>

subsection \<open>Python strings\<close>

text \<open>
  One \<^typ>\<open>char\<close> stands for one character of a Python \<open>str\<close> and for one column of
  the terminal (texts in the Latin-1 range).
\<close>

definition CR :: char where
  "CR = CHR 0x0D"

definition LF :: char where
  "LF = CHR 0x0A"

definition SP :: char where
  "SP = CHR 0x20"

definition isspace :: "char \<Rightarrow> bool" where
  \<comment> \<open>\<open>str.isspace\<close> on one character: TAB, LF, VT, FF, CR, the separators FS, GS, RS, US,
      the blank, NEL and the no-break space.\<close>
  "isspace c = (of_char c \<in> {9, 10, 11, 12, 13, 28, 29, 30, 31, 32, 133, 160 :: nat})"

definition lstrip :: "string \<Rightarrow> string" where
  "lstrip s = dropWhile isspace s"

definition rstrip :: "string \<Rightarrow> string" where
  "rstrip s = rev (dropWhile isspace (rev s))"

definition strip :: "string \<Rightarrow> string" where
  \<comment> \<open>\<open>s.strip()\<close>\<close>
  "strip s = rstrip (lstrip s)"

definition ljust :: "nat \<Rightarrow> string \<Rightarrow> string" where
  \<comment> \<open>\<open>s.ljust(n)\<close>: pads with blanks on the right, never truncates.\<close>
  "ljust n s = s @ replicate (n - length s) SP"

type_synonym dict = "string \<rightharpoonup> string"

definition dict_get :: "dict \<Rightarrow> string \<Rightarrow> string \<Rightarrow> string" where
  \<comment> \<open>\<open>d.get(k, default)\<close>\<close>
  "dict_get d k dflt = (case d k of None \<Rightarrow> dflt | Some v \<Rightarrow> v)"

subsection \<open>Exceptions, events and the program state\<close>

datatype exn =
    Exception string
  | ImportError string
  | AttributeError string
  | KeyboardInterrupt

fun is_Exception :: "exn \<Rightarrow> bool" where
  \<comment> \<open>what \<open>except Exception\<close> catches: \<open>KeyboardInterrupt\<close> derives from
      \<open>BaseException\<close> only\<close>
  "is_Exception KeyboardInterrupt = False"
| "is_Exception _ = True"

fun is_ImportError :: "exn \<Rightarrow> bool" where
  \<comment> \<open>what \<open>except ImportError\<close> catches\<close>
  "is_ImportError (ImportError _) = True"
| "is_ImportError _ = False"

fun exn_str :: "exn \<Rightarrow> string" where
  \<comment> \<open>\<open>str(e)\<close>\<close>
  "exn_str (Exception m) = m"
| "exn_str (ImportError m) = m"
| "exn_str (AttributeError m) = m"
| "exn_str KeyboardInterrupt = []"

record stream_config =
  samplerate :: nat
  channels :: nat
  dtype :: string
  blocksize :: nat

text \<open>
  Everything the program does to the outside world, in order: writes to the two console
  channels and calls into the two libraries.
\<close>

datatype event =
    Stdout_write string
  | Stdout_flush
  | Stderr_write string
  | Model_new string
  | KaldiRecognizer_new nat
  | InputStream_new stream_config
  | Stream_enter
  | Stream_exit
  | Sleep nat

definition print_stdout :: "string \<Rightarrow> event" where
  \<comment> \<open>\<open>print(s)\<close>: the text and a newline\<close>
  "print_stdout s = Stdout_write (s @ [LF])"

definition print_stderr :: "string \<Rightarrow> event" where
  \<comment> \<open>\<open>print(s, file=sys.stderr)\<close>\<close>
  "print_stderr s = Stderr_write (s @ [LF])"

fun stdout_of :: "event list \<Rightarrow> string" where
  \<comment> \<open>the characters that reached stdout\<close>
  "stdout_of [] = []"
| "stdout_of (Stdout_write s # es) = s @ stdout_of es"
| "stdout_of (_ # es) = stdout_of es"

fun stderr_of :: "event list \<Rightarrow> string" where
  "stderr_of [] = []"
| "stderr_of (Stderr_write s # es) = s @ stderr_of es"
| "stderr_of (_ # es) = stderr_of es"

text \<open>The global \<open>recognizer\<close> (\<open>None\<close> until \<open>main\<close> assigns it) and the trace so far.\<close>

record 'r pstate =
  recognizer :: "'r option"
  trace :: "event list"

definition emit :: "event list \<Rightarrow> 'r pstate \<Rightarrow> 'r pstate" where
  "emit es s = s\<lparr>trace := trace s @ es\<rparr>"

definition module_state :: "'r pstate" where
  \<comment> \<open>\<open>recognizer = None\<close> at module level\<close>
  "module_state = \<lparr>recognizer = None, trace = []\<rparr>"

subsection \<open>The environment\<close>

text \<open>
  \<open>bool(status)\<close> and \<open>str(status)\<close> of the driver's per-block flags.
\<close>

record callback_flags =
  flag_set :: bool
  flag_text :: string

type_synonym int16 = "16 word"
type_synonym bytes = "8 word list"

definition tobytes :: "int16 list \<Rightarrow> bytes" where
  \<comment> \<open>\<open>indata.tobytes()\<close> of a one-channel int16 block, low byte first\<close>
  "tobytes xs = concat (map (\<lambda>w. [ucast w, ucast (drop_bit 8 w)]) xs)"

text \<open>
  \<open>'m\<close> is the loaded model, \<open>'r\<close> the recognizer's decoding state. The three recognizer
  operations return the new decoding state; \<open>Result\<close> and \<open>PartialResult\<close> give the
  dictionary that \<open>json.loads\<close> reads from their answer, whose values under \<open>text\<close> and
  \<open>partial\<close> are strings. A library call that can raise gives the exception (\<open>Inl\<close>, or
  \<open>Some\<close> where the call returns nothing the model needs): \<open>import_module\<close> for a plain
  \<open>import\<close>, \<open>from_vosk_import\<close> for the guarded block (\<open>from vosk import ...\<close> and
  \<open>SetLogLevel(-1)\<close>), \<open>InputStream\<close> for the constructor and \<open>stream_start\<close> for the
  \<open>__enter__\<close> of the stream. \<open>blocks k\<close> are the blocks the driver delivers during the
  \<open>k\<close>-th call of \<open>sd.sleep\<close>, and \<open>sleep_raises k\<close> is the exception that ends that
  call, if any (\<open>KeyboardInterrupt\<close> on Ctrl+C).
\<close>

record ('m, 'r) env =
  import_module :: "string \<Rightarrow> exn option"
  from_vosk_import :: "exn option"
  Model :: "string \<Rightarrow> exn + 'm"
  KaldiRecognizer :: "'m \<Rightarrow> nat \<Rightarrow> exn + 'r"
  AcceptWaveform :: "'r \<Rightarrow> bytes \<Rightarrow> bool \<times> 'r"
  Result :: "'r \<Rightarrow> dict \<times> 'r"
  PartialResult :: "'r \<Rightarrow> dict \<times> 'r"
  InputStream :: "stream_config \<Rightarrow> exn option"
  stream_start :: "exn option"
  blocks :: "nat \<Rightarrow> (int16 list \<times> callback_flags) list"
  sleep_raises :: "nat \<Rightarrow> exn option"

subsection \<open>Configuration\<close>

definition SAMPLE_RATE :: nat where
  "SAMPLE_RATE = 16000"

definition BLOCKSIZE :: nat where
  "BLOCKSIZE = 8000"

definition MODEL_PATH :: string where
  "MODEL_PATH = ''models/vosk-model-en-us-0.42-gigaspeech''"

subsection \<open>The audio callback\<close>

definition status_line :: "callback_flags \<Rightarrow> event list" where
  \<comment> \<open>\<open>if status: print(f"SoundDevice Status: {status}", file=sys.stderr)\<close>\<close>
  "status_line status =
     (if flag_set status then [print_stderr (''SoundDevice Status: '' @ flag_text status)]
      else [])"

definition clear_line :: string where
  \<comment> \<open>\<open>'\r' + ' ' * 80 + '\r'\<close>\<close>
  "clear_line = CR # replicate 80 SP @ [CR]"

definition listening_prompt :: string where
  \<comment> \<open>\<open>'\r[Listening... Speak now]'.ljust(80) + '\r'\<close>: the carriage return is part of
      the string that is padded\<close>
  "listening_prompt = ljust 80 (CR # ''[Listening... Speak now]'') @ [CR]"

definition display_text :: "string \<Rightarrow> string" where
  \<comment> \<open>\<open>f"[Speaking... {partial_text}]"\<close>\<close>
  "display_text partial_text = ''[Speaking... '' @ partial_text @ '']''"

definition final_events :: "string \<Rightarrow> event list" where
  \<comment> \<open>the branch taken when \<open>AcceptWaveform\<close> returned true\<close>
  "final_events text =
     (if text \<noteq> [] then [Stdout_write clear_line, print_stdout (''TRANSCRIPTION: '' @ text)]
      else [])
     @ [Stdout_write listening_prompt, Stdout_flush]"

definition partial_events :: "string \<Rightarrow> event list" where
  \<comment> \<open>the branch taken when \<open>AcceptWaveform\<close> returned false\<close>
  "partial_events partial_text =
     (if partial_text \<noteq> []
      then [Stdout_write (CR # ljust 80 (display_text partial_text) @ [CR]), Stdout_flush]
      else [])"

text \<open>
  The callback returns \<open>None\<close> when it returns normally and the exception when it raises;
  the only raise of its own is the attribute access on a \<open>recognizer\<close> that is \<open>None\<close>.
  \<open>frames\<close> and \<open>time\<close> are not used by the source.
\<close>

definition audio_callback ::
  "('m, 'r) env \<Rightarrow> int16 list \<Rightarrow> nat \<Rightarrow> unit \<Rightarrow> callback_flags \<Rightarrow> 'r pstate
     \<Rightarrow> exn option \<times> 'r pstate" where
  "audio_callback E indata frames time status s =
     (let s1 = emit (status_line status) s;
          audio_bytes = tobytes indata
      in case recognizer s1 of
           None \<Rightarrow>
             (Some (AttributeError ''NoneType object has no attribute AcceptWaveform''), s1)
         | Some r \<Rightarrow>
             (case AcceptWaveform E r audio_bytes of
                (True, r1) \<Rightarrow>
                  (let (result, r2) = Result E r1;
                       text = strip (dict_get result ''text'' [])
                   in (None, emit (final_events text) (s1\<lparr>recognizer := Some r2\<rparr>)))
              | (False, r1) \<Rightarrow>
                  (let (partial_result, r2) = PartialResult E r1;
                       partial_text = strip (dict_get partial_result ''partial'' [])
                   in (None, emit (partial_events partial_text)
                               (s1\<lparr>recognizer := Some r2\<rparr>)))))"

text \<open>
  The driver delivers blocks one at a time, in arrival order. Delivery stops at the first
  callback that raises: what the driver does after that is not this program's code.
\<close>

fun deliver ::
  "('m, 'r) env \<Rightarrow> (int16 list \<times> callback_flags) list \<Rightarrow> 'r pstate
     \<Rightarrow> exn option \<times> 'r pstate" where
  "deliver E [] s = (None, s)"
| "deliver E ((indata, status) # bs) s =
     (case audio_callback E indata (length indata) () status s of
        (None, s') \<Rightarrow> deliver E bs s'
      | (Some e, s') \<Rightarrow> (Some e, s'))"

subsection \<open>main and the script\<close>

datatype 'r run =
    Returned "'r pstate"
  | Raised exn "'r pstate"
  | Callback_fault exn "'r pstate"
  | Running "'r pstate"

text \<open>
  The keep-alive loop \<open>while True: sd.sleep(1000)\<close> only ends by an exception. \<open>fuel\<close>
  bounds the iterations that are observed: with none left the loop is still \<open>Running\<close>,
  and the state is that of the run so far.
\<close>

fun wait_loop :: "('m, 'r) env \<Rightarrow> nat \<Rightarrow> nat \<Rightarrow> 'r pstate \<Rightarrow> 'r run" where
  "wait_loop E 0 k s = Running s"
| "wait_loop E (Suc fuel) k s =
     (case deliver E (blocks E k) (emit [Sleep 1000] s) of
        (Some e, s1) \<Rightarrow> Callback_fault e s1
      | (None, s1) \<Rightarrow>
          (case sleep_raises E k of
             Some e \<Rightarrow> Raised e s1
           | None \<Rightarrow> wait_loop E fuel (Suc k) s1))"

definition with_stream :: "('m, 'r) env \<Rightarrow> nat \<Rightarrow> 'r pstate \<Rightarrow> 'r run" where
  \<comment> \<open>\<open>with stream:\<close> the body runs after \<open>__enter__\<close> returned; \<open>__exit__\<close> (stop and close)
      runs when the body is left, and the exception is raised again\<close>
  "with_stream E fuel s =
     (case stream_start E of
        Some e \<Rightarrow> Raised e (emit [Stream_enter] s)
      | None \<Rightarrow>
          (case wait_loop E fuel 0
                  (emit [Stream_enter, Stdout_write ''[Listening... Speak now]'', Stdout_flush] s) of
             Raised e s1 \<Rightarrow> Raised e (emit [Stream_exit] s1)
           | Returned s1 \<Rightarrow> Returned (emit [Stream_exit] s1)
           | other \<Rightarrow> other))"

definition banner :: "event list" where
  "banner =
     [print_stdout ''--- Real-time Vosk Transcription ---'',
      print_stdout (''1. Make sure you have downloaded a Vosk model (e.g., ''
                    @ [CHR 0x27] @ MODEL_PATH @ [CHR 0x27] @ '').''),
      print_stdout ''2. Set the correct path in the MODEL_PATH variable.'',
      print_stdout ''-----------------------------------------------------'']"

definition model_error :: "exn \<Rightarrow> event list" where
  \<comment> \<open>the handler of the first \<open>try\<close>\<close>
  "model_error e =
     [print_stdout (LF # ''FATAL ERROR: Could not load Vosk model from ''
                    @ [CHR 0x27] @ MODEL_PATH @ [CHR 0x27] @ ''.''),
      print_stdout ''Ensure the model folder exists and the path is correct.'',
      print_stdout (exn_str e)]"

definition stream_error :: "exn \<Rightarrow> event list" where
  \<comment> \<open>the handler of the second \<open>try\<close>\<close>
  "stream_error e =
     [print_stdout (''FATAL ERROR: Could not start audio stream. Check ''
                    @ [CHR 0x27] @ ''sounddevice'' @ [CHR 0x27] @ '' setup or device access.''),
      print_stdout (exn_str e)]"

definition stream_settings :: stream_config where
  "stream_settings =
     \<lparr>samplerate = SAMPLE_RATE, channels = 1, dtype = ''int16'', blocksize = BLOCKSIZE\<rparr>"

definition open_stream :: "('m, 'r) env \<Rightarrow> nat \<Rightarrow> 'r pstate \<Rightarrow> 'r run" where
  \<comment> \<open>from "Model loaded successfully" to the end of \<open>main\<close>\<close>
  "open_stream E fuel s =
     (let s1 = emit [print_stdout ''Model loaded successfully. Starting microphone input.'',
                     print_stdout ''-----------------------------------------------------'',
                     InputStream_new stream_settings] s
      in case InputStream E stream_settings of
           Some e \<Rightarrow>
             (if is_Exception e then Returned (emit (stream_error e) s1) else Raised e s1)
         | None \<Rightarrow> with_stream E fuel s1)"

definition load_failed :: "exn \<Rightarrow> 'r pstate \<Rightarrow> 'r run" where
  \<comment> \<open>\<open>except Exception as e: ...; return\<close>\<close>
  "load_failed e s = (if is_Exception e then Returned (emit (model_error e) s) else Raised e s)"

definition main :: "('m, 'r) env \<Rightarrow> nat \<Rightarrow> 'r pstate \<Rightarrow> 'r run" where
  "main E fuel s =
     (let s1 = emit (banner @ [Model_new MODEL_PATH]) s
      in case Model E MODEL_PATH of
           Inl e \<Rightarrow> load_failed e s1
         | Inr model \<Rightarrow>
             (let s2 = emit [KaldiRecognizer_new SAMPLE_RATE] s1
              in case KaldiRecognizer E model SAMPLE_RATE of
                   Inl e \<Rightarrow> load_failed e s2
                 | Inr r \<Rightarrow> open_stream E fuel (s2\<lparr>recognizer := Some r\<rparr>)))"

text \<open>
  How the process ends: \<open>sys.exit(n)\<close> or the end of the script (status 0), an exception
  nobody handles (the interpreter prints the traceback and the status is not 0), or, for
  a run that is cut by the fuel, not yet.
\<close>

datatype ending =
    Exit nat
  | Unhandled exn
  | Driver_fault exn
  | Not_yet

fun first_raise :: "exn option list \<Rightarrow> exn option" where
  "first_raise [] = None"
| "first_raise (None # xs) = first_raise xs"
| "first_raise (Some e # xs) = Some e"

definition import_error :: "event list" where
  \<comment> \<open>the handler of the module-level \<open>try\<close>\<close>
  "import_error =
     [print_stdout (''FATAL ERROR: The '' @ [CHR 0x27] @ ''vosk'' @ [CHR 0x27]
                    @ '' package could not be imported.''),
      print_stdout ''Please run: pip install vosk'']"

definition script :: "('m, 'r) env \<Rightarrow> nat \<Rightarrow> ending \<times> 'r pstate" where
  \<comment> \<open>the module from its first line: the plain imports of lines 12 to 17, the guarded
      \<open>from vosk import ...\<close>, then \<open>main()\<close>\<close>
  "script E fuel =
     (case first_raise (map (import_module E)
             [''sounddevice'', ''numpy'', ''time'', ''sys'', ''json'', ''vosk'']) of
        Some e \<Rightarrow> (Unhandled e, module_state)
      | None \<Rightarrow>
          (case from_vosk_import E of
             Some e \<Rightarrow>
               (if is_ImportError e then (Exit 1, emit import_error module_state)
                else (Unhandled e, module_state))
           | None \<Rightarrow>
               (case main E fuel module_state of
                  Returned s \<Rightarrow> (Exit 0, s)
                | Raised e s \<Rightarrow> (Unhandled e, s)
                | Callback_fault e s \<Rightarrow> (Driver_fault e, s)
                | Running s \<Rightarrow> (Not_yet, s))))"

fun exit_status :: "ending \<Rightarrow> nat option" where
  \<comment> \<open>the status the parent process sees; an unhandled exception gives 1, an unhandled
      \<open>KeyboardInterrupt\<close> 130 (the interpreter ends itself with SIGINT)\<close>
  "exit_status (Exit n) = Some n"
| "exit_status (Unhandled KeyboardInterrupt) = Some 130"
| "exit_status (Unhandled _) = Some 1"
| "exit_status _ = None"

subsection \<open>The terminal\<close>

text \<open>
  What the stdout characters look like on a terminal: the lines already ended by a
  newline, the line the cursor is on, and the cursor's column. A carriage return moves
  the cursor to column 0, a newline ends the line, any other character overwrites the
  cell under the cursor. Lines do not wrap: for lines of at most 80 columns, the width
  the program pads and clears to, this is a terminal of 80 columns or more.
\<close>

record screen =
  permanent :: "string list"
  cur :: string
  col :: nat

definition put_char :: "char \<Rightarrow> screen \<Rightarrow> screen" where
  "put_char c t =
     (if c = CR then t\<lparr>col := 0\<rparr>
      else if c = LF then \<lparr>permanent = permanent t @ [cur t], cur = [], col = 0\<rparr>
      else t\<lparr>cur := (if col t < length (cur t) then (cur t)[col t := c]
                      else cur t @ replicate (col t - length (cur t)) SP @ [c]),
              col := Suc (col t)\<rparr>)"

definition render :: "screen \<Rightarrow> string \<Rightarrow> screen" where
  "render t out = fold put_char out t"

definition remnant_free :: "screen \<Rightarrow> string \<Rightarrow> bool" where
  \<comment> \<open>writing \<open>out\<close> leaves nothing of the line that was on screen: the screen
      afterwards is the one the same characters give when that line was empty\<close>
  "remnant_free t out = (render t out = render (t\<lparr>cur := []\<rparr>) out)"

subsection \<open>A scripted environment\<close>

text \<open>
  An environment in which everything loads, the recognizer answers the four blocks of an
  utterance with the partial texts "", "hello", "hello world" and then the final text
  "hello world", two blocks arrive per second, and Ctrl+C ends the third sleep.
\<close>

definition no_flags :: callback_flags where
  "no_flags = \<lparr>flag_set = False, flag_text = ''no flags set''\<rparr>"

definition input_overflow :: callback_flags where
  "input_overflow = \<lparr>flag_set = True, flag_text = ''input overflow''\<rparr>"

definition silence :: "int16 list" where
  "silence = replicate BLOCKSIZE 0"

definition scripted_env :: "(unit, nat) env" where
  "scripted_env =
     \<lparr>import_module = (\<lambda>m. None),
      from_vosk_import = None,
      Model = (\<lambda>path. Inr ()),
      KaldiRecognizer = (\<lambda>model rate. Inr 0),
      AcceptWaveform = (\<lambda>r b. (r = 3, Suc r)),
      Result = (\<lambda>r. ([''text'' \<mapsto> ''hello world''], 0)),
      PartialResult = (\<lambda>r. ([''partial'' \<mapsto>
         (if r = 1 then [] else if r = 2 then ''hello'' else ''hello world'')], r)),
      InputStream = (\<lambda>cfg. None),
      stream_start = None,
      blocks = (\<lambda>k. [(silence, no_flags), (silence, no_flags)]),
      sleep_raises = (\<lambda>k. if k = 2 then Some KeyboardInterrupt else None)\<rparr>"

text \<open>
  Variations of it: a recognizer that takes its partial text back ("hello", then nothing),
  one that replaces a long partial text by a short one, two that replace a partial text
  of 60 characters by one with a carriage return or a newline inside (a JSON string can
  hold both), one whose final text is blank,
  and three in which the start-up fails (the \<open>vosk\<close> package is not installed, the model
  directory is missing, no input device can be opened).
\<close>

definition retracting_env :: "(unit, nat) env" where
  "retracting_env =
     scripted_env\<lparr>AcceptWaveform := (\<lambda>r b. (False, Suc r)),
       PartialResult := (\<lambda>r. ([''partial'' \<mapsto> (if r = 1 then ''hello'' else [])], r))\<rparr>"

definition long_text :: string where
  "long_text = ''the quick brown fox jumps over the lazy dog and then it runs far away''"

definition shortening_env :: "(unit, nat) env" where
  "shortening_env =
     scripted_env\<lparr>AcceptWaveform := (\<lambda>r b. (False, Suc r)),
       PartialResult := (\<lambda>r. ([''partial'' \<mapsto> (if r = 1 then long_text else ''the quick'')], r))\<rparr>"

definition wide_text :: string where
  "wide_text = ''please send the report to the whole team before friday night''"

definition carriage_return_env :: "(unit, nat) env" where
  "carriage_return_env =
     scripted_env\<lparr>AcceptWaveform := (\<lambda>r b. (False, Suc r)),
       PartialResult := (\<lambda>r. ([''partial'' \<mapsto>
          (if r = 1 then wide_text else ''hi'' @ [CR] @ ''yo'')], r))\<rparr>"

definition newline_env :: "(unit, nat) env" where
  "newline_env =
     scripted_env\<lparr>AcceptWaveform := (\<lambda>r b. (False, Suc r)),
       PartialResult := (\<lambda>r. ([''partial'' \<mapsto>
          (if r = 1 then wide_text else ''hi'' @ [LF] @ ''yo'')], r))\<rparr>"

definition noise_env :: "(unit, nat) env" where
  "noise_env = scripted_env\<lparr>Result := (\<lambda>r. ([''text'' \<mapsto> ''  ''], 0))\<rparr>"

definition no_vosk_env :: "(unit, nat) env" where
  "no_vosk_env =
     scripted_env\<lparr>import_module := (\<lambda>m. if m = ''vosk''
        then Some (ImportError ''No module named vosk'') else None)\<rparr>"

definition no_model_env :: "(unit, nat) env" where
  "no_model_env = scripted_env\<lparr>Model := (\<lambda>path. Inl (Exception ''Failed to create a model''))\<rparr>"

definition no_device_env :: "(unit, nat) env" where
  "no_device_env =
     scripted_env\<lparr>InputStream := (\<lambda>cfg. Some (Exception ''Error querying device -1''))\<rparr>"

definition blank_screen :: screen where
  "blank_screen = \<lparr>permanent = [], cur = [], col = 0\<rparr>"

section \<open>Properties\<close>

subsection \<open>Traces, output and the terminal\<close>

lemma trace_emit: "trace (emit es s) = trace s @ es"
  by (simp add: emit_def)

lemma recognizer_emit: "recognizer (emit es s) = recognizer s"
  by (simp add: emit_def)

lemma emit_emit: "emit es2 (emit es1 s) = emit (es1 @ es2) s"
  by (simp add: emit_def)

lemma stdout_of_append: "stdout_of (xs @ ys) = stdout_of xs @ stdout_of ys"
  by (induction xs rule: stdout_of.induct) simp_all

lemma stderr_of_append: "stderr_of (xs @ ys) = stderr_of xs @ stderr_of ys"
  by (induction xs rule: stderr_of.induct) simp_all

lemma stdout_of_status_line: "stdout_of (status_line status) = []"
  by (simp add: status_line_def print_stderr_def)

lemma audio_callback_final:
  assumes "recognizer s = Some r"
    and "AcceptWaveform E r (tobytes indata) = (True, r1)"
    and "Result E r1 = (result, r2)"
  shows "audio_callback E indata frames time status s =
           (None, emit (status_line status @ final_events (strip (dict_get result ''text'' [])))
                    (s\<lparr>recognizer := Some r2\<rparr>))"
  using assms by (simp add: audio_callback_def Let_def emit_def)

lemma audio_callback_partial:
  assumes "recognizer s = Some r"
    and "AcceptWaveform E r (tobytes indata) = (False, r1)"
    and "PartialResult E r1 = (partial_result, r2)"
  shows "audio_callback E indata frames time status s =
           (None, emit (status_line status @ partial_events (strip (dict_get partial_result ''partial'' [])))
                    (s\<lparr>recognizer := Some r2\<rparr>))"
  using assms by (simp add: audio_callback_def Let_def emit_def)

lemma render_Nil: "render t [] = t"
  by (simp add: render_def)

lemma render_append: "render t (xs @ ys) = render (render t xs) ys"
  by (simp add: render_def)

lemma render_printable:
  assumes "CR \<notin> set w" "LF \<notin> set w" "col t \<le> length (cur t)"
  shows "render t w =
           t\<lparr>cur := take (col t) (cur t) @ w @ drop (col t + length w) (cur t),
             col := col t + length w\<rparr>"
  using assms
proof (induction w arbitrary: t)
  case Nil
  then show ?case by (simp add: render_def)
next
  case (Cons c w)
  let ?t' = "put_char c t"
  from Cons.prems have c: "c \<noteq> CR" "c \<noteq> LF" by auto
  have t': "?t' = t\<lparr>cur := take (col t) (cur t) @ c # drop (Suc (col t)) (cur t), col := Suc (col t)\<rparr>"
    using Cons.prems(3) c by (auto simp: put_char_def upd_conv_take_nth_drop)
  have "render t (c # w) = render ?t' w" by (simp add: render_def)
  also have "\<dots> = ?t'\<lparr>cur := take (col ?t') (cur ?t') @ w @ drop (col ?t' + length w) (cur ?t'),
             col := col ?t' + length w\<rparr>"
    using Cons.prems c by (intro Cons.IH) (auto simp: t')
  finally show ?case using Cons.prems(3) by (auto simp: t' min_def ac_simps)
qed


lemma render_in_place:
  assumes "CR \<notin> set w" "LF \<notin> set w"
  shows "render t (CR # w @ [CR]) = t\<lparr>cur := w @ drop (length w) (cur t), col := 0\<rparr>"
proof -
  have "render t (CR # w @ [CR]) = render (render (t\<lparr>col := 0\<rparr>) w) [CR]"
    by (simp add: render_def put_char_def)
  also have "render (t\<lparr>col := 0\<rparr>) w = t\<lparr>cur := w @ drop (length w) (cur t), col := length w\<rparr>"
    using assms by (simp add: render_printable)
  finally show ?thesis by (simp add: render_def put_char_def)
qed


lemma no_LF_listening_prompt: "LF \<notin> set listening_prompt"
  by (simp add: listening_prompt_def ljust_def CR_def LF_def SP_def)

lemma listening_prompt_eq:
  "listening_prompt = CR # ljust 79 ''[Listening... Speak now]'' @ [CR]"
  by (simp add: listening_prompt_def ljust_def)

subsection \<open>The final branch of the callback\<close>



lemma strip_hello_world: "strip ''hello world'' = ''hello world''"
  by (simp add: strip_def lstrip_def rstrip_def isspace_def)


lemma stderr_of_final_events: "stderr_of (final_events t) = []"
  by (simp add: final_events_def print_stdout_def)

lemma stderr_of_partial_events: "stderr_of (partial_events t) = []"
  by (simp add: partial_events_def)

lemma no_CR_LF_prompt_text:
  "CR \<notin> set (ljust 79 ''[Listening... Speak now]'')" "LF \<notin> set (ljust 79 ''[Listening... Speak now]'')"
  by (simp_all add: ljust_def CR_def LF_def SP_def)

lemma render_listening_prompt:
  "render scr listening_prompt =
     scr\<lparr>cur := ljust 79 ''[Listening... Speak now]'' @ drop 79 (cur scr), col := 0\<rparr>"
proof -
  have "length (ljust 79 ''[Listening... Speak now]'') = 79" by (simp add: ljust_def)
  then show ?thesis
    using render_in_place [OF no_CR_LF_prompt_text, of scr]
    by (simp only: listening_prompt_eq)
qed

text \<open>
  Claim C9. When \<open>AcceptWaveform\<close> returns true and the stripped final text is empty, the
  callback returns normally and its only writes to stdout are the listening prompt and a
  flush: no newline reaches stdout, so no line becomes permanent, and nothing goes to
  stderr but the driver's status line, if there is one. On the terminal the permanent
  lines stay as they were, the first 79 columns of the current line show the prompt, and
  the cursor is back in column 0.
\<close>

theorem empty_final_text_only_redisplays_prompt:
  assumes "recognizer s = Some r"
    and "AcceptWaveform E r (tobytes indata) = (True, r1)"
    and "Result E r1 = (result, r2)"
    and "strip (dict_get result ''text'' []) = []"
  shows "audio_callback E indata frames time status s =
           (None, s\<lparr>recognizer := Some r2,
                    trace := trace s @ status_line status @
                      [Stdout_write listening_prompt, Stdout_flush]\<rparr>)
       \<and> stdout_of (status_line status @ [Stdout_write listening_prompt, Stdout_flush])
           = listening_prompt
       \<and> stderr_of (status_line status @ [Stdout_write listening_prompt, Stdout_flush])
           = stderr_of (status_line status)
       \<and> LF \<notin> set listening_prompt
       \<and> permanent (render scr listening_prompt) = permanent scr
       \<and> take 79 (cur (render scr listening_prompt)) = ljust 79 ''[Listening... Speak now]''
       \<and> col (render scr listening_prompt) = 0"
proof -
  have cb: "audio_callback E indata frames time status s =
           (None, s\<lparr>recognizer := Some r2,
                    trace := trace s @ status_line status @
                      [Stdout_write listening_prompt, Stdout_flush]\<rparr>)"
    using assms by (simp add: audio_callback_final final_events_def emit_def)
  have out: "stdout_of (status_line status @ [Stdout_write listening_prompt, Stdout_flush])
           = listening_prompt"
    by (simp add: stdout_of_append stdout_of_status_line)
  have err: "stderr_of (status_line status @ [Stdout_write listening_prompt, Stdout_flush])
           = stderr_of (status_line status)"
    by (simp add: stderr_of_append)
  have len: "length (ljust 79 ''[Listening... Speak now]'') = 79" by (simp add: ljust_def)
  have scr: "permanent (render scr listening_prompt) = permanent scr"
    "take 79 (cur (render scr listening_prompt)) = ljust 79 ''[Listening... Speak now]''"
    "col (render scr listening_prompt) = 0"
    using len by (simp_all add: render_listening_prompt)
  from cb out err scr no_LF_listening_prompt show ?thesis by blast
qed

lemma strip_blanks: "strip ''  '' = []"
  by (simp add: strip_def lstrip_def rstrip_def isspace_def)

theorem empty_final_text_only_redisplays_prompt_witness:
  "audio_callback noise_env silence BLOCKSIZE () no_flags \<lparr>recognizer = Some 3, trace = []\<rparr> =
     (None, \<lparr>recognizer = Some 0, trace = [Stdout_write listening_prompt, Stdout_flush]\<rparr>)
   \<and> permanent (render blank_screen listening_prompt) = []"
  using empty_final_text_only_redisplays_prompt
          [where E = noise_env and s = "\<lparr>recognizer = Some 3, trace = []\<rparr>" and r = 3
             and indata = silence and ?r1.0 = 4 and ?result = "[''text'' \<mapsto> ''  '']"
             and ?r2.0 = 0 and status = no_flags and scr = blank_screen
             and frames = BLOCKSIZE and time = "()"]
  by (simp add: noise_env_def scripted_env_def strip_blanks dict_get_def status_line_def
        no_flags_def blank_screen_def)

subsection \<open>The driver's status flags\<close>

text \<open>
  Claim C7. A callback that arrives with a truthy status writes the status line to stderr
  and then does exactly what it does without the flag: the block is fed to the recognizer,
  the recognizer's state and the writes to stdout are the same, and with a recognizer in
  place the callback returns normally.
\<close>

theorem status_flag_is_logged_and_block_processed:
  assumes "flag_set status"
    and "recognizer s = Some r"
  shows "audio_callback E indata frames time status s =
           audio_callback E indata frames time (status\<lparr>flag_set := False\<rparr>)
             (emit [print_stderr (''SoundDevice Status: '' @ flag_text status)] s)
       \<and> fst (audio_callback E indata frames time status s) = None
       \<and> recognizer (snd (audio_callback E indata frames time status s)) =
           recognizer (snd (audio_callback E indata frames time (status\<lparr>flag_set := False\<rparr>) s))
       \<and> stdout_of (trace (snd (audio_callback E indata frames time status s))) =
           stdout_of (trace (snd (audio_callback E indata frames time
                                    (status\<lparr>flag_set := False\<rparr>) s)))
       \<and> stderr_of (trace (snd (audio_callback E indata frames time status s))) =
           stderr_of (trace s) @ ''SoundDevice Status: '' @ flag_text status @ [LF]"
proof -
  obtain b r1 where acc: "AcceptWaveform E r (tobytes indata) = (b, r1)"
    by (cases "AcceptWaveform E r (tobytes indata)")
  obtain d r2 where res: "Result E r1 = (d, r2)"
    by (cases "Result E r1")
  obtain p r3 where par: "PartialResult E r1 = (p, r3)"
    by (cases "PartialResult E r1")
  show ?thesis
  proof (cases b)
    case True
    with assms acc res show ?thesis
      by (simp add: audio_callback_def Let_def emit_def status_line_def stdout_of_append
            stderr_of_append stderr_of_final_events print_stderr_def)
  next
    case False
    with assms acc par show ?thesis
      by (simp add: audio_callback_def Let_def emit_def status_line_def stdout_of_append
            stderr_of_append stderr_of_partial_events print_stderr_def)
  qed
qed

theorem status_flag_is_logged_and_block_processed_witness:
  "audio_callback scripted_env silence BLOCKSIZE () input_overflow
       \<lparr>recognizer = Some 1, trace = []\<rparr> =
     (None, \<lparr>recognizer = Some 2,
             trace = [Stderr_write (''SoundDevice Status: input overflow'' @ [LF]),
                      Stdout_write (CR # ljust 80 ''[Speaking... hello]'' @ [CR]),
                      Stdout_flush]\<rparr>)"
  using status_flag_is_logged_and_block_processed
          [where E = scripted_env and s = "\<lparr>recognizer = Some 1, trace = []\<rparr>" and r = 1
             and indata = silence and status = input_overflow
             and frames = BLOCKSIZE and time = "()"]
  by (simp add: scripted_env_def input_overflow_def audio_callback_def Let_def emit_def
        status_line_def dict_get_def strip_def lstrip_def rstrip_def isspace_def
        partial_events_def display_text_def print_stderr_def)

subsection \<open>The partial branch of the callback\<close>

lemma length_ljust: "length (ljust n s) = max n (length s)"
  by (simp add: ljust_def)

lemma no_CR_LF_display:
  assumes "CR \<notin> set t" "LF \<notin> set t"
  shows "CR \<notin> set (ljust 80 (display_text t))" "LF \<notin> set (ljust 80 (display_text t))"
  using assms by (simp_all add: ljust_def display_text_def CR_def LF_def SP_def)

lemma render_speaking:
  assumes "CR \<notin> set t" "LF \<notin> set t"
  shows "render scr (CR # ljust 80 (display_text t) @ [CR]) =
           scr\<lparr>cur := ljust 80 (display_text t) @ drop (max 80 (length (display_text t))) (cur scr),
               col := 0\<rparr>"
  using render_in_place [OF no_CR_LF_display [OF assms], of scr]
  by (simp only: length_ljust)

lemma render_two_segments:
  assumes "CR \<notin> set a" "LF \<notin> set a" "CR \<notin> set b" "LF \<notin> set b"
  shows "render t (CR # (a @ CR # b) @ [CR]) =
           t\<lparr>cur := b @ drop (length b) (a @ drop (length a) (cur t)), col := 0\<rparr>"
proof -
  have "render t (CR # (a @ CR # b) @ [CR]) = render (render t (CR # a @ [CR])) (CR # b @ [CR])"
    by (simp add: render_def put_char_def)
  then show ?thesis
    by (simp add: render_in_place [OF assms(1,2)] render_in_place [OF assms(3,4)])
qed

lemma render_two_lines:
  assumes "CR \<notin> set a" "LF \<notin> set a" "CR \<notin> set b" "LF \<notin> set b"
  shows "render t (CR # (a @ LF # b) @ [CR]) =
           \<lparr>permanent = permanent t @ [a @ drop (length a) (cur t)], cur = b, col = 0\<rparr>"
proof -
  have ne: "LF \<noteq> CR" by (simp add: CR_def LF_def)
  have "render t (CR # (a @ LF # b) @ [CR]) =
          render (put_char LF (render t (CR # a @ [CR]))) (CR # b @ [CR])"
    by (simp add: render_def put_char_def)
  then show ?thesis
    using ne
    by (simp add: render_in_place [OF assms(1,2)] render_in_place [OF assms(3,4)] put_char_def)
qed

lemma stdout_of_partial_events:
  "stdout_of (partial_events t) = (if t = [] then [] else CR # ljust 80 (display_text t) @ [CR])"
  by (simp add: partial_events_def)

lemma partial_run_two_blocks:
  assumes "recognizer s = Some 0"
    and "AcceptWaveform E = (\<lambda>r b. (False, Suc r))"
    and "PartialResult E = (\<lambda>r. ([''partial'' \<mapsto> (if r = 1 then t1 else t2)], r))"
    and "strip t1 = t1" and "strip t2 = t2"
  shows "deliver E [(silence, no_flags)] s =
           (None, s\<lparr>recognizer := Some 1, trace := trace s @ partial_events t1\<rparr>)"
    and "audio_callback E silence frames time no_flags (s\<lparr>recognizer := Some 1\<rparr>) =
           (None, s\<lparr>recognizer := Some 2, trace := trace s @ partial_events t2\<rparr>)"
    and "deliver E [(silence, no_flags), (silence, no_flags)] s =
           (None, s\<lparr>recognizer := Some 2,
                    trace := trace s @ partial_events t1 @ partial_events t2\<rparr>)"
  using assms
  by (simp_all add: audio_callback_def Let_def emit_def status_line_def no_flags_def dict_get_def)

text \<open>
  Claim C2, as stated, fails in four ways. A partial result with empty text writes
  nothing, so a line "[Speaking... hello]" stays on screen when the recognizer takes the
  text back. The padding goes to 80 columns only: after a line of 83 columns, the update
  for a shorter text leaves the columns from 80 on as they were. And the padding counts
  characters, not columns: a carriage return inside the text makes the update end short
  of a line of 74 columns, and a newline inside it turns the first part of the update,
  with the rest of the old line behind it, into a permanent line.
\<close>

theorem partial_update_leaves_remnant:
  "cur (render blank_screen (stdout_of (trace (snd (deliver retracting_env
       [(silence, no_flags), (silence, no_flags)] \<lparr>recognizer = Some 0, trace = []\<rparr>)))))
     = ljust 80 ''[Speaking... hello]''
   \<and> \<not> remnant_free
        (render blank_screen (stdout_of (trace (snd (deliver retracting_env
           [(silence, no_flags)] \<lparr>recognizer = Some 0, trace = []\<rparr>)))))
        (stdout_of (trace (snd (audio_callback retracting_env silence BLOCKSIZE () no_flags
           \<lparr>recognizer = Some 1, trace = []\<rparr>))))
   \<and> cur (render blank_screen (stdout_of (trace (snd (deliver shortening_env
       [(silence, no_flags), (silence, no_flags)] \<lparr>recognizer = Some 0, trace = []\<rparr>)))))
     = ljust 80 ''[Speaking... the quick]'' @ ''ay]''
   \<and> \<not> remnant_free
        (render blank_screen (stdout_of (trace (snd (deliver shortening_env
           [(silence, no_flags)] \<lparr>recognizer = Some 0, trace = []\<rparr>)))))
        (stdout_of (trace (snd (audio_callback shortening_env silence BLOCKSIZE () no_flags
           \<lparr>recognizer = Some 1, trace = []\<rparr>))))
   \<and> cur (render blank_screen (stdout_of (trace (snd (deliver carriage_return_env
       [(silence, no_flags), (silence, no_flags)] \<lparr>recognizer = Some 0, trace = []\<rparr>)))))
     = ''yo]'' @ replicate 61 SP @ ''day night]'' @ replicate 6 SP
   \<and> \<not> remnant_free
        (render blank_screen (stdout_of (trace (snd (deliver carriage_return_env
           [(silence, no_flags)] \<lparr>recognizer = Some 0, trace = []\<rparr>)))))
        (stdout_of (trace (snd (audio_callback carriage_return_env silence BLOCKSIZE () no_flags
           \<lparr>recognizer = Some 1, trace = []\<rparr>))))
   \<and> permanent (render blank_screen (stdout_of (trace (snd (deliver newline_env
       [(silence, no_flags), (silence, no_flags)] \<lparr>recognizer = Some 0, trace = []\<rparr>)))))
     = [''[Speaking... hiease send the report to the whole team before friday night]''
        @ replicate 6 SP]
   \<and> \<not> remnant_free
        (render blank_screen (stdout_of (trace (snd (deliver newline_env
           [(silence, no_flags)] \<lparr>recognizer = Some 0, trace = []\<rparr>)))))
        (stdout_of (trace (snd (audio_callback newline_env silence BLOCKSIZE () no_flags
           \<lparr>recognizer = Some 1, trace = []\<rparr>))))"
proof -
  let ?s = "\<lparr>recognizer = Some (0::nat), trace = []\<rparr>"
  have st: "strip ''hello'' = ''hello''" "strip ''the quick'' = ''the quick''"
    "strip long_text = long_text" "strip [] = []" "strip wide_text = wide_text"
    "strip (''hi'' @ [CR] @ ''yo'') = ''hi'' @ [CR] @ ''yo''"
    "strip (''hi'' @ [LF] @ ''yo'') = ''hi'' @ [LF] @ ''yo''"
    by (simp_all add: strip_def lstrip_def rstrip_def isspace_def long_text_def wide_text_def
          CR_def LF_def)
  have ok: "CR \<notin> set ''hello''" "LF \<notin> set ''hello''" "CR \<notin> set ''the quick''"
    "LF \<notin> set ''the quick''" "CR \<notin> set long_text" "LF \<notin> set long_text"
    "CR \<notin> set wide_text" "LF \<notin> set wide_text"
    by (simp_all add: CR_def LF_def long_text_def wide_text_def)
  note rs = render_speaking [OF ok(1,2)] render_speaking [OF ok(3,4)]
    render_speaking [OF ok(5,6)] render_speaking [OF ok(7,8)]
  have sg: "CR \<notin> set ''[Speaking... hi''" "LF \<notin> set ''[Speaking... hi''"
    "CR \<notin> set (''yo]'' @ replicate 61 SP)" "LF \<notin> set (''yo]'' @ replicate 61 SP)"
    by (simp_all add: CR_def LF_def SP_def)
  have upd_cr: "CR # ljust 80 (display_text (''hi'' @ [CR] @ ''yo'')) @ [CR] =
      CR # (''[Speaking... hi'' @ CR # (''yo]'' @ replicate 61 SP)) @ [CR]"
    by (simp add: ljust_def display_text_def)
  have upd_lf: "CR # ljust 80 (display_text (''hi'' @ [LF] @ ''yo'')) @ [CR] =
      CR # (''[Speaking... hi'' @ LF # (''yo]'' @ replicate 61 SP)) @ [CR]"
    by (simp add: ljust_def display_text_def)
  have envs:
    "AcceptWaveform retracting_env = (\<lambda>r b. (False, Suc r))"
    "PartialResult retracting_env =
       (\<lambda>r. ([''partial'' \<mapsto> (if r = 1 then ''hello'' else [])], r))"
    "AcceptWaveform shortening_env = (\<lambda>r b. (False, Suc r))"
    "PartialResult shortening_env =
       (\<lambda>r. ([''partial'' \<mapsto> (if r = 1 then long_text else ''the quick'')], r))"
    "AcceptWaveform carriage_return_env = (\<lambda>r b. (False, Suc r))"
    "PartialResult carriage_return_env =
       (\<lambda>r. ([''partial'' \<mapsto> (if r = 1 then wide_text else ''hi'' @ [CR] @ ''yo'')], r))"
    "AcceptWaveform newline_env = (\<lambda>r b. (False, Suc r))"
    "PartialResult newline_env =
       (\<lambda>r. ([''partial'' \<mapsto> (if r = 1 then wide_text else ''hi'' @ [LF] @ ''yo'')], r))"
    by (simp_all add: retracting_env_def shortening_env_def carriage_return_env_def
          newline_env_def scripted_env_def)
  have rec0: "recognizer ?s = Some 0" by simp
  have upd: "?s\<lparr>recognizer := Some 1\<rparr> = \<lparr>recognizer = Some 1, trace = []\<rparr>" by simp
  note rt = partial_run_two_blocks [OF rec0 envs(1) envs(2) st(1) st(4), unfolded upd]
  note sh = partial_run_two_blocks [OF rec0 envs(3) envs(4) st(3) st(2), unfolded upd]
  note cr = partial_run_two_blocks [OF rec0 envs(5) envs(6) st(5) st(6), unfolded upd]
  note lf = partial_run_two_blocks [OF rec0 envs(7) envs(8) st(5) st(7), unfolded upd]
  have ne: "long_text \<noteq> []" "wide_text \<noteq> []"
    by (simp_all add: long_text_def wide_text_def)
  have first:
    "render blank_screen (CR # ljust 80 (display_text ''hello'') @ [CR]) =
       blank_screen\<lparr>cur := ljust 80 (display_text ''hello'')\<rparr>"
    "render blank_screen (CR # ljust 80 (display_text long_text) @ [CR]) =
       blank_screen\<lparr>cur := ljust 80 (display_text long_text)\<rparr>"
    "render blank_screen (CR # ljust 80 (display_text wide_text) @ [CR]) =
       blank_screen\<lparr>cur := ljust 80 (display_text wide_text)\<rparr>"
    by (simp_all add: rs blank_screen_def)
  have a: "cur (render blank_screen (stdout_of (trace (snd (deliver retracting_env
       [(silence, no_flags), (silence, no_flags)] ?s)))))
     = ljust 80 ''[Speaking... hello]''"
    unfolding rt by (simp add: stdout_of_append stdout_of_partial_events first)
      (simp add: display_text_def)
  have b: "\<not> remnant_free
        (render blank_screen (stdout_of (trace (snd (deliver retracting_env
           [(silence, no_flags)] ?s)))))
        (stdout_of (trace (snd (audio_callback retracting_env silence BLOCKSIZE () no_flags
           \<lparr>recognizer = Some 1, trace = []\<rparr>))))"
    unfolding rt by (simp add: stdout_of_partial_events first remnant_free_def render_Nil)
      (simp add: ljust_def display_text_def blank_screen_def)
  have two: "render t ((CR # x @ [CR]) @ (CR # y @ [CR])) =
      render (render t (CR # x @ [CR])) (CR # y @ [CR])" for t x y
    by (rule render_append)
  have out_sh: "stdout_of (trace (snd (deliver shortening_env
       [(silence, no_flags), (silence, no_flags)] ?s))) =
      (CR # ljust 80 (display_text long_text) @ [CR])
      @ (CR # ljust 80 (display_text ''the quick'') @ [CR])"
    unfolding sh by (simp add: stdout_of_append stdout_of_partial_events ne)
  have out_cr: "stdout_of (trace (snd (deliver carriage_return_env
       [(silence, no_flags), (silence, no_flags)] ?s))) =
      (CR # ljust 80 (display_text wide_text) @ [CR])
      @ (CR # ljust 80 (display_text (''hi'' @ [CR] @ ''yo'')) @ [CR])"
    unfolding cr by (simp add: stdout_of_append stdout_of_partial_events ne)
  have out_lf: "stdout_of (trace (snd (deliver newline_env
       [(silence, no_flags), (silence, no_flags)] ?s))) =
      (CR # ljust 80 (display_text wide_text) @ [CR])
      @ (CR # ljust 80 (display_text (''hi'' @ [LF] @ ''yo'')) @ [CR])"
    unfolding lf by (simp add: stdout_of_append stdout_of_partial_events ne)
  have one_sh: "stdout_of (trace (snd (deliver shortening_env [(silence, no_flags)] ?s))) =
      CR # ljust 80 (display_text long_text) @ [CR]"
    "stdout_of (trace (snd (audio_callback shortening_env silence BLOCKSIZE () no_flags
           \<lparr>recognizer = Some 1, trace = []\<rparr>))) =
      CR # ljust 80 (display_text ''the quick'') @ [CR]"
    unfolding sh by (simp_all add: stdout_of_partial_events ne)
  have one_cr: "stdout_of (trace (snd (deliver carriage_return_env [(silence, no_flags)] ?s))) =
      CR # ljust 80 (display_text wide_text) @ [CR]"
    "stdout_of (trace (snd (audio_callback carriage_return_env silence BLOCKSIZE () no_flags
           \<lparr>recognizer = Some 1, trace = []\<rparr>))) =
      CR # ljust 80 (display_text (''hi'' @ [CR] @ ''yo'')) @ [CR]"
    unfolding cr by (simp_all add: stdout_of_partial_events ne)
  have one_lf: "stdout_of (trace (snd (deliver newline_env [(silence, no_flags)] ?s))) =
      CR # ljust 80 (display_text wide_text) @ [CR]"
    "stdout_of (trace (snd (audio_callback newline_env silence BLOCKSIZE () no_flags
           \<lparr>recognizer = Some 1, trace = []\<rparr>))) =
      CR # ljust 80 (display_text (''hi'' @ [LF] @ ''yo'')) @ [CR]"
    unfolding lf by (simp_all add: stdout_of_partial_events ne)
  have c: "cur (render blank_screen (stdout_of (trace (snd (deliver shortening_env
       [(silence, no_flags), (silence, no_flags)] ?s)))))
     = ljust 80 ''[Speaking... the quick]'' @ ''ay]''"
    unfolding out_sh two first rs
    by (simp add: blank_screen_def display_text_def long_text_def ljust_def)
  have d: "\<not> remnant_free
        (render blank_screen (stdout_of (trace (snd (deliver shortening_env
           [(silence, no_flags)] ?s)))))
        (stdout_of (trace (snd (audio_callback shortening_env silence BLOCKSIZE () no_flags
           \<lparr>recognizer = Some 1, trace = []\<rparr>))))"
    unfolding one_sh first remnant_free_def rs
    by (simp add: blank_screen_def display_text_def long_text_def ljust_def)
  have e: "cur (render blank_screen (stdout_of (trace (snd (deliver carriage_return_env
       [(silence, no_flags), (silence, no_flags)] ?s)))))
     = ''yo]'' @ replicate 61 SP @ ''day night]'' @ replicate 6 SP"
    unfolding out_cr two first upd_cr render_two_segments [OF sg]
    by (simp add: blank_screen_def display_text_def wide_text_def ljust_def)
  have f: "\<not> remnant_free
        (render blank_screen (stdout_of (trace (snd (deliver carriage_return_env
           [(silence, no_flags)] ?s)))))
        (stdout_of (trace (snd (audio_callback carriage_return_env silence BLOCKSIZE () no_flags
           \<lparr>recognizer = Some 1, trace = []\<rparr>))))"
    unfolding one_cr first remnant_free_def upd_cr render_two_segments [OF sg]
    by (simp add: blank_screen_def display_text_def wide_text_def ljust_def)
  have g: "permanent (render blank_screen (stdout_of (trace (snd (deliver newline_env
       [(silence, no_flags), (silence, no_flags)] ?s)))))
     = [''[Speaking... hiease send the report to the whole team before friday night]''
        @ replicate 6 SP]"
    unfolding out_lf two first upd_lf render_two_lines [OF sg]
    by (simp add: blank_screen_def display_text_def wide_text_def ljust_def)
  have h: "\<not> remnant_free
        (render blank_screen (stdout_of (trace (snd (deliver newline_env
           [(silence, no_flags)] ?s)))))
        (stdout_of (trace (snd (audio_callback newline_env silence BLOCKSIZE () no_flags
           \<lparr>recognizer = Some 1, trace = []\<rparr>))))"
    unfolding one_lf first remnant_free_def upd_lf render_two_lines [OF sg]
    by (simp add: blank_screen_def display_text_def wide_text_def ljust_def)
  from a b c d e f g h show ?thesis by blast
qed

text \<open>
  Claim C2, amended. When \<open>AcceptWaveform\<close> returns false, the callback returns normally
  and writes what the stripped partial text \<open>t\<close> asks for. For a non-empty \<open>t\<close> that holds no
  carriage return or newline and whose display text \<open>[Speaking... t]\<close> is at most 80
  columns wide, that is one in-place update: a carriage return, the display text padded
  with blanks to exactly 80 columns, a carriage return, and a flush. When the line on
  screen is at most 80 columns wide, nothing of it remains: the line shown is the padded
  new text, the cursor is in column 0 and the permanent lines are untouched. For an empty
  \<open>t\<close> the callback writes nothing to stdout and the screen stays as it is.
\<close>

theorem partial_update_overwrites_line:
  assumes "recognizer s = Some r"
    and "AcceptWaveform E r (tobytes indata) = (False, r1)"
    and "PartialResult E r1 = (partial_result, r2)"
    and "strip (dict_get partial_result ''partial'' []) = t"
    and "CR \<notin> set t" and "LF \<notin> set t"
    and "length (display_text t) \<le> 80"
    and "length (cur scr) \<le> 80"
  shows "audio_callback E indata frames time status s =
           (None, s\<lparr>recognizer := Some r2,
                    trace := trace s @ status_line status @ partial_events t\<rparr>)
       \<and> (t \<noteq> [] \<longrightarrow>
            partial_events t =
              [Stdout_write (CR # ljust 80 (display_text t) @ [CR]), Stdout_flush]
            \<and> length (ljust 80 (display_text t)) = 80
            \<and> remnant_free scr (stdout_of (partial_events t))
            \<and> render scr (stdout_of (partial_events t)) =
                scr\<lparr>cur := ljust 80 (display_text t), col := 0\<rparr>)
       \<and> (t = [] \<longrightarrow>
            stdout_of (partial_events t) = []
            \<and> render scr (stdout_of (partial_events t)) = scr)"
proof -
  have cb: "audio_callback E indata frames time status s =
           (None, s\<lparr>recognizer := Some r2,
                    trace := trace s @ status_line status @ partial_events t\<rparr>)"
    using assms(1-4) by (simp add: audio_callback_partial emit_def)
  have full: "t \<noteq> [] \<longrightarrow>
            partial_events t =
              [Stdout_write (CR # ljust 80 (display_text t) @ [CR]), Stdout_flush]
            \<and> length (ljust 80 (display_text t)) = 80
            \<and> remnant_free scr (stdout_of (partial_events t))
            \<and> render scr (stdout_of (partial_events t)) =
                scr\<lparr>cur := ljust 80 (display_text t), col := 0\<rparr>"
  proof
    assume "t \<noteq> []"
    then have ev: "partial_events t =
        [Stdout_write (CR # ljust 80 (display_text t) @ [CR]), Stdout_flush]"
      by (simp add: partial_events_def)
    then have out: "stdout_of (partial_events t) = CR # ljust 80 (display_text t) @ [CR]"
      by simp
    have len: "length (ljust 80 (display_text t)) = 80"
      using assms(7) by (simp add: length_ljust)
    have here: "render scr (CR # ljust 80 (display_text t) @ [CR]) =
        scr\<lparr>cur := ljust 80 (display_text t), col := 0\<rparr>"
      using assms(7,8) by (simp add: render_speaking [OF assms(5,6)])
    have blank: "render (scr\<lparr>cur := []\<rparr>) (CR # ljust 80 (display_text t) @ [CR]) =
        scr\<lparr>cur := ljust 80 (display_text t), col := 0\<rparr>"
      by (simp add: render_speaking [OF assms(5,6)])
    show "partial_events t =
              [Stdout_write (CR # ljust 80 (display_text t) @ [CR]), Stdout_flush]
            \<and> length (ljust 80 (display_text t)) = 80
            \<and> remnant_free scr (stdout_of (partial_events t))
            \<and> render scr (stdout_of (partial_events t)) =
                scr\<lparr>cur := ljust 80 (display_text t), col := 0\<rparr>"
      using ev len here blank by (simp add: out remnant_free_def)
  qed
  have none: "t = [] \<longrightarrow>
            stdout_of (partial_events t) = []
            \<and> render scr (stdout_of (partial_events t)) = scr"
    by (simp add: partial_events_def render_Nil)
  from cb full none show ?thesis by blast
qed

theorem partial_update_overwrites_line_witness:
  "audio_callback scripted_env silence BLOCKSIZE () no_flags \<lparr>recognizer = Some 2, trace = []\<rparr> =
     (None, \<lparr>recognizer = Some 3,
             trace = [Stdout_write (CR # ljust 80 ''[Speaking... hello world]'' @ [CR]),
                      Stdout_flush]\<rparr>)
   \<and> length (ljust 80 ''[Speaking... hello world]'') = 80
   \<and> remnant_free \<lparr>permanent = [], cur = ljust 80 ''[Speaking... hello]'', col = 0\<rparr>
        (CR # ljust 80 ''[Speaking... hello world]'' @ [CR])
   \<and> render \<lparr>permanent = [], cur = ljust 80 ''[Speaking... hello]'', col = 0\<rparr>
        (CR # ljust 80 ''[Speaking... hello world]'' @ [CR]) =
      \<lparr>permanent = [], cur = ljust 80 ''[Speaking... hello world]'', col = 0\<rparr>"
  using partial_update_overwrites_line
          [where E = scripted_env and s = "\<lparr>recognizer = Some 2, trace = []\<rparr>" and r = 2
             and indata = silence and ?r1.0 = 3
             and partial_result = "[''partial'' \<mapsto> ''hello world'']"
             and ?r2.0 = 3 and t = "''hello world''" and status = no_flags
             and scr = "\<lparr>permanent = [], cur = ljust 80 ''[Speaking... hello]'', col = 0\<rparr>"
             and frames = BLOCKSIZE and time = "()"]
  by (simp add: scripted_env_def strip_hello_world dict_get_def status_line_def no_flags_def
        partial_events_def display_text_def CR_def LF_def length_ljust)

subsection \<open>Callbacks during the keep-alive loop\<close>

lemma audio_callback_with_recognizer:
  assumes "recognizer s = Some r"
  shows "\<exists>r' evs. audio_callback E indata frames time status s =
            (None, s\<lparr>recognizer := Some r', trace := trace s @ evs\<rparr>)
          \<and> count_list evs Stream_exit = 0"
proof -
  obtain b r1 where acc: "AcceptWaveform E r (tobytes indata) = (b, r1)"
    by (cases "AcceptWaveform E r (tobytes indata)")
  obtain d r2 where res: "Result E r1 = (d, r2)"
    by (cases "Result E r1")
  obtain p r3 where par: "PartialResult E r1 = (p, r3)"
    by (cases "PartialResult E r1")
  show ?thesis
  proof (cases b)
    case True
    with assms acc res have "audio_callback E indata frames time status s =
        (None, s\<lparr>recognizer := Some r2, trace := trace s @ status_line status @
           final_events (strip (dict_get d ''text'' []))\<rparr>)"
      by (simp add: audio_callback_final emit_def)
    moreover have "count_list (status_line status @
           final_events (strip (dict_get d ''text'' []))) Stream_exit = 0"
      by (simp add: status_line_def final_events_def print_stderr_def print_stdout_def)
    ultimately show ?thesis by blast
  next
    case False
    with assms acc par have "audio_callback E indata frames time status s =
        (None, s\<lparr>recognizer := Some r3, trace := trace s @ status_line status @
           partial_events (strip (dict_get p ''partial'' []))\<rparr>)"
      by (simp add: audio_callback_partial emit_def)
    moreover have "count_list (status_line status @
           partial_events (strip (dict_get p ''partial'' []))) Stream_exit = 0"
      by (simp add: status_line_def partial_events_def print_stderr_def)
    ultimately show ?thesis by blast
  qed
qed

lemma audio_callback_without_recognizer:
  "recognizer s = None \<Longrightarrow> fst (audio_callback E indata frames time status s) \<noteq> None"
  by (simp add: audio_callback_def Let_def emit_def)

lemma deliver_with_recognizer:
  assumes "recognizer s \<noteq> None"
  shows "\<exists>s'. deliver E bs s = (None, s') \<and> recognizer s' \<noteq> None
           \<and> count_list (trace s') Stream_exit = count_list (trace s) Stream_exit"
  using assms
proof (induction bs arbitrary: s)
  case Nil
  then show ?case by simp
next
  case (Cons b bs)
  obtain indata status where b: "b = (indata, status)" by (cases b)
  from Cons.prems obtain r where r: "recognizer s = Some r" by auto
  from audio_callback_with_recognizer [OF r, of E indata "length indata" "()" status]
  obtain r' evs where cb: "audio_callback E indata (length indata) () status s =
      (None, s\<lparr>recognizer := Some r', trace := trace s @ evs\<rparr>)"
    and evs: "count_list evs Stream_exit = 0"
    by blast
  let ?s1 = "s\<lparr>recognizer := Some r', trace := trace s @ evs\<rparr>"
  have "recognizer ?s1 \<noteq> None" by simp
  from Cons.IH [OF this] obtain s' where "deliver E bs ?s1 = (None, s')"
    and "recognizer s' \<noteq> None"
    and "count_list (trace s') Stream_exit = count_list (trace ?s1) Stream_exit"
    by blast
  with evs show ?case by (simp add: b cb)
qed

lemma wait_loop_no_fault:
  "recognizer s \<noteq> None \<Longrightarrow> wait_loop E fuel k s \<noteq> Callback_fault e s'"
proof (induction fuel arbitrary: k s)
  case 0
  then show ?case by simp
next
  case (Suc fuel)
  have "recognizer (emit [Sleep 1000] s) \<noteq> None"
    using Suc.prems by (simp add: recognizer_emit)
  from deliver_with_recognizer [OF this, of E "blocks E k"]
  obtain s1 where d: "deliver E (blocks E k) (emit [Sleep 1000] s) = (None, s1)"
    and r: "recognizer s1 \<noteq> None"
    by blast
  show ?case
    using Suc.IH [OF r, of "Suc k"] by (simp add: d split: option.splits)
qed

lemma wait_loop_interrupted:
  assumes "recognizer s \<noteq> None"
    and "sleep_raises E (k + n) = Some e"
    and "\<forall>j<n. sleep_raises E (k + j) = None"
    and "n < fuel"
  shows "\<exists>s'. wait_loop E fuel k s = Raised e s'
           \<and> count_list (trace s') Stream_exit = count_list (trace s) Stream_exit"
  using assms
proof (induction n arbitrary: fuel k s)
  case 0
  then obtain fuel' where fuel: "fuel = Suc fuel'" by (cases fuel) auto
  have "recognizer (emit [Sleep 1000] s) \<noteq> None"
    using "0.prems"(1) by (simp add: recognizer_emit)
  from deliver_with_recognizer [OF this, of E "blocks E k"]
  obtain s1 where d: "deliver E (blocks E k) (emit [Sleep 1000] s) = (None, s1)"
    and c: "count_list (trace s1) Stream_exit = count_list (trace (emit [Sleep 1000] s)) Stream_exit"
    by blast
  with "0.prems"(2) show ?case by (simp add: fuel d trace_emit)
next
  case (Suc n)
  then obtain fuel' where fuel: "fuel = Suc fuel'" and n: "n < fuel'" by (cases fuel) auto
  have "recognizer (emit [Sleep 1000] s) \<noteq> None"
    using Suc.prems(1) by (simp add: recognizer_emit)
  from deliver_with_recognizer [OF this, of E "blocks E k"]
  obtain s1 where d: "deliver E (blocks E k) (emit [Sleep 1000] s) = (None, s1)"
    and r: "recognizer s1 \<noteq> None"
    and c: "count_list (trace s1) Stream_exit = count_list (trace (emit [Sleep 1000] s)) Stream_exit"
    by blast
  have now: "sleep_raises E k = None" using Suc.prems(3) by (metis add.right_neutral zero_less_Suc)
  have later: "sleep_raises E (Suc k + n) = Some e" using Suc.prems(2) by simp
  have quiet: "\<forall>j<n. sleep_raises E (Suc k + j) = None"
  proof (intro allI impI)
    fix j assume "j < n"
    then have "Suc j < Suc n" by simp
    with Suc.prems(3) have "sleep_raises E (k + Suc j) = None" by blast
    then show "sleep_raises E (Suc k + j) = None" by simp
  qed
  from Suc.IH [OF r later quiet n]
  obtain s' where "wait_loop E fuel' (Suc k) s1 = Raised e s'"
    and "count_list (trace s') Stream_exit = count_list (trace s1) Stream_exit"
    by blast
  with c show ?case by (simp add: fuel d now trace_emit)
qed

subsection \<open>Start-up and shutdown\<close>

lemma count_banner: "count_list banner Stream_exit = 0"
  by (simp add: banner_def print_stdout_def)

text \<open>
  Claim C8. When the model, the recognizer and the stream start up and the \<open>k\<close>-th call of
  \<open>sd.sleep\<close> is the first one that an exception ends (Ctrl+C, at any iteration \<open>k\<close>),
  \<open>main\<close> leaves the \<open>with\<close> block by that exception, and the trace of the whole run holds
  the stream's exit (stop and close) exactly once, as its last event.
\<close>

theorem interrupt_releases_stream_exactly_once:
  assumes "Model E MODEL_PATH = Inr m"
    and "KaldiRecognizer E m SAMPLE_RATE = Inr r"
    and "InputStream E stream_settings = None"
    and "stream_start E = None"
    and "sleep_raises E k = Some e"
    and "\<forall>j<k. sleep_raises E j = None"
    and "k < fuel"
  shows "\<exists>s'. main E fuel module_state = Raised e s'
           \<and> count_list (trace s') Stream_exit = 1
           \<and> last (trace s') = Stream_exit"
proof -
  let ?s = "emit [Stream_enter, Stdout_write ''[Listening... Speak now]'', Stdout_flush]
     (emit [print_stdout ''Model loaded successfully. Starting microphone input.'',
            print_stdout ''-----------------------------------------------------'',
            InputStream_new stream_settings]
       ((emit [KaldiRecognizer_new SAMPLE_RATE]
          (emit (banner @ [Model_new MODEL_PATH]) module_state))\<lparr>recognizer := Some r\<rparr>))"
  have rec: "recognizer ?s \<noteq> None" by (simp add: emit_def)
  have none: "count_list (trace ?s) Stream_exit = 0"
    by (simp add: emit_def module_state_def count_banner print_stdout_def)
  have at: "sleep_raises E (0 + k) = Some e" using assms(5) by simp
  have before: "\<forall>j<k. sleep_raises E (0 + j) = None" using assms(6) by simp
  from wait_loop_interrupted [OF rec at before assms(7)]
  obtain s1 where loop: "wait_loop E fuel 0 ?s = Raised e s1"
    and same: "count_list (trace s1) Stream_exit = count_list (trace ?s) Stream_exit"
    by blast
  have "main E fuel module_state = Raised e (emit [Stream_exit] s1)"
    using assms(1-4) loop by (simp add: main_def open_stream_def with_stream_def Let_def)
  moreover have "count_list (trace (emit [Stream_exit] s1)) Stream_exit = 1"
    using same none by (simp add: trace_emit)
  moreover have "last (trace (emit [Stream_exit] s1)) = Stream_exit"
    by (simp add: trace_emit)
  ultimately show ?thesis by blast
qed

theorem interrupt_releases_stream_exactly_once_witness:
  "\<exists>s'. main scripted_env 5 module_state = Raised KeyboardInterrupt s'
           \<and> count_list (trace s') Stream_exit = 1
           \<and> last (trace s') = Stream_exit"
  using interrupt_releases_stream_exactly_once
          [where E = scripted_env and m = "()" and r = 0 and k = 2 and e = KeyboardInterrupt
             and fuel = 5]
  by (simp add: scripted_env_def)

text \<open>
  Claim C10. The callback raises on its recognizer access exactly when the global is
  \<open>None\<close>, and no run of \<open>main\<close>, from any state and cut after any number of loop
  iterations, has a callback that does so: blocks are only delivered inside the \<open>with\<close>
  block, which is entered after the recognizer was assigned, and the callback never
  sets the global back to \<open>None\<close>.
\<close>

theorem callback_always_finds_recognizer:
  "(fst (audio_callback E indata frames time status s0) = None) = (recognizer s0 \<noteq> None)
   \<and> main E fuel s \<noteq> Callback_fault e s'
   \<and> fst (script E fuel) \<noteq> Driver_fault e"
proof -
  have cb: "(fst (audio_callback E indata frames time status s0) = None) = (recognizer s0 \<noteq> None)"
  proof (cases "recognizer s0")
    case None
    then show ?thesis using audio_callback_without_recognizer [of s0 E indata frames time status]
      by simp
  next
    case (Some r)
    then show ?thesis using audio_callback_with_recognizer [of s0 r E indata frames time status]
      by auto
  qed
  have loop: "wait_loop E fuel 0 (emit es (s1\<lparr>recognizer := Some r\<rparr>)) \<noteq> Callback_fault e s2"
    for es r e s2 and s1
    by (rule wait_loop_no_fault) (simp add: emit_def)
  have ws: "with_stream E fuel (emit es (s1\<lparr>recognizer := Some r\<rparr>)) \<noteq> Callback_fault e s2"
    for es r e s2 and s1
    using loop [where es = "es @ [Stream_enter, Stdout_write ''[Listening... Speak now]'', Stdout_flush]"
                 and ?s1.0 = s1 and r = r]
    by (auto simp: with_stream_def emit_emit split: option.splits run.splits)
  have os: "open_stream E fuel (s1\<lparr>recognizer := Some r\<rparr>) \<noteq> Callback_fault e s2"
    for r e s2 and s1
    using ws [where ?s1.0 = s1 and r = r and e = e and ?s2.0 = s2]
    by (auto simp: open_stream_def Let_def split: option.splits)
  have mn: "main E fuel s1 \<noteq> Callback_fault e s2" for s1 e s2
    using os [where ?s1.0 = "emit [KaldiRecognizer_new SAMPLE_RATE] (emit (banner @ [Model_new MODEL_PATH]) s1)"]
    by (auto simp: main_def load_failed_def Let_def split: sum.splits)
  have sc: "fst (script E fuel) \<noteq> Driver_fault e"
    using mn [where ?s1.0 = module_state]
    by (auto simp: script_def split: option.splits run.splits)
  from cb mn sc show ?thesis by blast
qed

lemma no_stream_in_banner: "InputStream_new cfg \<notin> set banner" "Stream_enter \<notin> set banner"
  by (simp_all add: banner_def print_stdout_def)

lemma no_stream_in_model_error:
  "InputStream_new cfg \<notin> set (model_error e)" "Stream_enter \<notin> set (model_error e)"
  by (simp_all add: model_error_def print_stdout_def)

text \<open>
  Claim C4. When \<open>Model(MODEL_PATH)\<close> raises, \<open>main\<close> ends right there: it returns after
  the handler's three printed lines (or, for an exception that \<open>except Exception\<close> does
  not catch, raises it again). The trace of \<open>main\<close> and of the whole script holds no
  construction of an \<open>InputStream\<close> and no entry into the stream, and the script has
  ended.
\<close>

theorem model_failure_opens_no_stream:
  assumes "Model E MODEL_PATH = Inl e"
  shows "main E fuel s =
           (if is_Exception e
            then Returned (emit (banner @ [Model_new MODEL_PATH] @ model_error e) s)
            else Raised e (emit (banner @ [Model_new MODEL_PATH]) s))
       \<and> InputStream_new cfg \<notin> set (banner @ [Model_new MODEL_PATH] @ model_error e)
       \<and> Stream_enter \<notin> set (banner @ [Model_new MODEL_PATH] @ model_error e)
       \<and> InputStream_new cfg \<notin> set (trace (snd (script E fuel)))
       \<and> Stream_enter \<notin> set (trace (snd (script E fuel)))
       \<and> fst (script E fuel) \<noteq> Not_yet"
proof -
  have mn: "main E fuel s =
           (if is_Exception e
            then Returned (emit (banner @ [Model_new MODEL_PATH] @ model_error e) s)
            else Raised e (emit (banner @ [Model_new MODEL_PATH]) s))" for s :: "'b pstate"
    using assms by (simp add: main_def load_failed_def Let_def emit_emit)
  have ev: "InputStream_new cfg \<notin> set (banner @ [Model_new MODEL_PATH] @ model_error e)"
    "Stream_enter \<notin> set (banner @ [Model_new MODEL_PATH] @ model_error e)"
    by (simp_all add: no_stream_in_banner no_stream_in_model_error)
  have sc: "InputStream_new cfg \<notin> set (trace (snd (script E fuel)))
       \<and> Stream_enter \<notin> set (trace (snd (script E fuel)))
       \<and> fst (script E fuel) \<noteq> Not_yet"
    using ev
    by (simp add: script_def mn module_state_def emit_def import_error_def print_stdout_def
          split: option.splits)
  from mn ev sc show ?thesis by blast
qed

theorem model_failure_opens_no_stream_witness:
  "main no_model_env 5 module_state =
     Returned (emit (banner @ [Model_new MODEL_PATH]
                     @ model_error (Exception ''Failed to create a model'')) module_state)
   \<and> InputStream_new stream_settings \<notin> set (trace (snd (script no_model_env 5)))"
  using model_failure_opens_no_stream
          [where E = no_model_env and e = "Exception ''Failed to create a model''"
             and fuel = 5 and s = module_state and cfg = stream_settings]
  by (simp add: no_model_env_def scripted_env_def)

text \<open>
  Claim C3 on the code: with the model directory missing, the script prints the banner
  and the handler's lines, the first of which names the path, and then ends by the
  \<open>return\<close> of \<open>main\<close>, so the exit status is 0.
\<close>

theorem model_failure_exit_status:
  "script no_model_env fuel =
     (Exit 0, \<lparr>recognizer = None,
               trace = banner @ [Model_new MODEL_PATH] @
                 [print_stdout (LF # ''FATAL ERROR: Could not load Vosk model from ''
                                @ [CHR 0x27] @ MODEL_PATH @ [CHR 0x27] @ ''.''),
                  print_stdout ''Ensure the model folder exists and the path is correct.'',
                  print_stdout ''Failed to create a model'']\<rparr>)
   \<and> exit_status (fst (script no_model_env fuel)) = Some 0"
  by (simp add: script_def main_def load_failed_def Let_def no_model_env_def scripted_env_def
        module_state_def emit_def model_error_def)

text \<open>
  Claim C5 on the code: with the \<open>vosk\<close> package not installed, the plain \<open>import vosk\<close> of
  line 17 raises before the guarded import is reached. Nothing is written to stdout, the
  exception is not handled, and the exit status is 1.
\<close>

theorem missing_vosk_prints_no_instructions:
  "script no_vosk_env fuel =
     (Unhandled (ImportError ''No module named vosk''), \<lparr>recognizer = None, trace = []\<rparr>)
   \<and> stdout_of (trace (snd (script no_vosk_env fuel))) = []
   \<and> exit_status (fst (script no_vosk_env fuel)) = Some 1"
  by (simp add: script_def no_vosk_env_def scripted_env_def module_state_def)

text \<open>
  Claim C6 on the code: with no input device, the script prints the handler's two lines
  and ends by the \<open>return\<close> of \<open>main\<close>, so the exit status is 0. The recognizer stays
  assigned and the stream is never entered.
\<close>

theorem stream_failure_exit_status:
  "script no_device_env fuel =
     (Exit 0, \<lparr>recognizer = Some 0,
               trace = banner @ [Model_new MODEL_PATH, KaldiRecognizer_new SAMPLE_RATE,
                  print_stdout ''Model loaded successfully. Starting microphone input.'',
                  print_stdout ''-----------------------------------------------------'',
                  InputStream_new stream_settings,
                  print_stdout (''FATAL ERROR: Could not start audio stream. Check ''
                    @ [CHR 0x27] @ ''sounddevice'' @ [CHR 0x27] @ '' setup or device access.''),
                  print_stdout ''Error querying device -1'']\<rparr>)
   \<and> exit_status (fst (script no_device_env fuel)) = Some 0
   \<and> Stream_enter \<notin> set (trace (snd (script no_device_env fuel)))"
  by (simp add: script_def main_def open_stream_def Let_def no_device_env_def scripted_env_def
        module_state_def emit_def stream_error_def no_stream_in_banner)
     (simp add: print_stdout_def)

end
